theory Spec2Isabelle
  imports Complex_Main "HOL-Library.AList"
begin

section \<open>Python values, exceptions and the dataset\<close>

text \<open>
  The exceptions the analysed module can raise.  Every \<^verbatim>\<open>raise\<close> of
  \<^verbatim>\<open>household.py\<close> is a \<open>ValueError\<close> with its message; the other
  constructors are the exceptions Python, numpy and pandas raise on their own
  (an empty array indexed at 0, a label that is not in a Series, a comparison of
  a number with a non-number, a local variable read before it is bound).
\<close>

datatype error = ValueError string | IndexError | KeyError | TypeError | UnboundLocalError

text \<open>The Python values a caller can pass where the module inspects \<^verbatim>\<open>type(...)\<close>.\<close>

datatype pyval =
  PyInt int | PyFloat real | PyBool bool | PyStr string | PyNone | PyList "pyval list"

text \<open>
  The dataframe: its \<^verbatim>\<open>timestamp\<close> column and its numeric columns by name,
  on the default index \<open>0, 1, ...\<close>.  A timestamp is pandas' count of nanoseconds
  since the epoch, a reading is a real number (rounding and NaN are not modelled).
\<close>

record dataframe =
  timestamp :: "int list"
  channels :: "(string \<times> real list) list"

datatype frame_arg = DataFrame dataframe | NotDataFrame pyval

definition contents :: "dataframe \<Rightarrow> string list" where
  "contents df = ''timestamp'' # map fst (channels df)"

definition column :: "dataframe \<Rightarrow> string \<Rightarrow> real list option" where
  "column df name = map_of (channels df) name"

text \<open>\<^verbatim>\<open>series[i]\<close> on the default index: the label \<open>i\<close> or a \<open>KeyError\<close>.\<close>

definition series_at :: "'a list \<Rightarrow> nat \<Rightarrow> error + 'a" where
  "series_at xs i = (if i < length xs then Inr (xs ! i) else Inl KeyError)"

text \<open>
  A difference of two timestamps is a pandas \<^verbatim>\<open>Timedelta\<close>, here its
  nanoseconds.  \<^verbatim>\<open>.days\<close> is the floor of the whole days, \<^verbatim>\<open>.seconds\<close>
  the whole seconds of the rest of the day (between 0 and 86399).
\<close>

definition td_days :: "int \<Rightarrow> int" where
  "td_days d = d div 86400000000000"

definition td_seconds :: "int \<Rightarrow> int" where
  "td_seconds d = (d mod 86400000000000) div 1000000000"

section \<open>The peak detector of scipy\<close>

text \<open>
  \<^verbatim>\<open>scipy.signal.find_peaks(x, height=h, distance=d)[0]\<close> is a library
  function, outside \<^verbatim>\<open>household.py\<close>.  The operations below take the
  detector as a parameter of this type; \<open>find_peaks\<close> further down follows
  scipy's implementation and instantiates it.
\<close>

type_synonym peak_finder = "real list \<Rightarrow> real \<Rightarrow> int \<Rightarrow> error + nat list"

function plateau_end :: "real list \<Rightarrow> nat \<Rightarrow> real \<Rightarrow> nat \<Rightarrow> nat" where
  "plateau_end x i_max v i_ahead =
     (if i_ahead < i_max \<and> x ! i_ahead = v then plateau_end x i_max v (Suc i_ahead)
      else i_ahead)"
  by pat_completeness auto
termination
  by (relation "measure (\<lambda>(x, i_max, v, i_ahead). i_max - i_ahead)") auto

declare plateau_end.simps [simp del]

lemma plateau_end_ge: "i_ahead \<le> plateau_end x i_max v i_ahead"
proof (induction x i_max v i_ahead rule: plateau_end.induct)
  case (1 x i_max v i_ahead)
  show ?case
  proof (cases "i_ahead < i_max \<and> x ! i_ahead = v")
    case True
    with "1" have "Suc i_ahead \<le> plateau_end x i_max v (Suc i_ahead)" by simp
    with True show ?thesis by (subst plateau_end.simps) simp
  next
    case False
    then show ?thesis by (subst plateau_end.simps) auto
  qed
qed

text \<open>
  \<^verbatim>\<open>_local_maxima_1d\<close>: a sample higher than its left neighbour starts a
  plateau; when the sample after the plateau is lower, the plateau's midpoint
  is a peak.  The first and the last sample are never peaks.
\<close>

function local_maxima_from :: "real list \<Rightarrow> nat \<Rightarrow> nat list" where
  "local_maxima_from x i =
     (if i < length x - 1 then
        (if x ! (i - 1) < x ! i then
           (let i_ahead = plateau_end x (length x - 1) (x ! i) (i + 1) in
            if x ! i_ahead < x ! i
            then ((i + (i_ahead - 1)) div 2) # local_maxima_from x (i_ahead + 1)
            else local_maxima_from x (i + 1))
         else local_maxima_from x (i + 1))
      else [])"
  by pat_completeness auto
termination
proof (relation "measure (\<lambda>(x, i). length x - i)")
  show "wf (measure (\<lambda>(x, i). length x - i))" by simp
next
  fix x :: "real list" and i i_ahead :: nat
  assume a: "i < length x - 1" and b: "i_ahead = plateau_end x (length x - 1) (x ! i) (i + 1)"
  have "i + 1 \<le> i_ahead" unfolding b by (rule plateau_end_ge)
  with a show "((x, i_ahead + 1), (x, i)) \<in> measure (\<lambda>(x, i). length x - i)" by simp
next
  fix x :: "real list" and i :: nat
  assume "i < length x - 1"
  then show "((x, i + 1), (x, i)) \<in> measure (\<lambda>(x, i). length x - i)" by simp
next
  fix x :: "real list" and i :: nat
  assume "i < length x - 1"
  then show "((x, i + 1), (x, i)) \<in> measure (\<lambda>(x, i). length x - i)" by simp
qed

declare local_maxima_from.simps [simp del]

definition local_maxima_1d :: "real list \<Rightarrow> nat list" where
  "local_maxima_1d x = local_maxima_from x 1"

text \<open>
  \<^verbatim>\<open>_select_by_peak_distance\<close>: the peaks are visited from the highest to
  the lowest; a peak that is still kept removes every other peak closer than
  \<open>distance\<close> samples.  \<open>argsort\<close> lists the positions by rising priority;
  equal priorities are taken in index order here (numpy's default sort leaves
  the order of equal keys open; no statement below depends on it).
\<close>

definition argsort :: "real list \<Rightarrow> nat list" where
  "argsort priority = map snd (sort_key fst (zip priority [0..<length priority]))"

definition suppress :: "nat list \<Rightarrow> int \<Rightarrow> nat \<Rightarrow> bool list \<Rightarrow> bool list" where
  "suppress peaks distance j keep =
     map (\<lambda>k. if k \<noteq> j \<and> \<bar>int (peaks ! k) - int (peaks ! j)\<bar> < distance then False
              else keep ! k) [0..<length peaks]"

fun select_loop :: "nat list \<Rightarrow> int \<Rightarrow> nat list \<Rightarrow> bool list \<Rightarrow> bool list" where
  "select_loop peaks distance [] keep = keep"
| "select_loop peaks distance (j # js) keep =
     (if keep ! j then select_loop peaks distance js (suppress peaks distance j keep)
      else select_loop peaks distance js keep)"

definition select_by_peak_distance :: "nat list \<Rightarrow> real list \<Rightarrow> int \<Rightarrow> bool list" where
  "select_by_peak_distance peaks priority distance =
     select_loop peaks distance (rev (argsort priority)) (replicate (length peaks) True)"

definition find_peaks :: peak_finder where
  "find_peaks x height distance =
     (if distance < 1 then Inl (ValueError ''distance must be greater or equal to 1'')
      else
        (let peaks = filter (\<lambda>p. height \<le> x ! p) (local_maxima_1d x);
             keep = select_by_peak_distance peaks (map (\<lambda>p. x ! p) peaks) distance
         in Inr (map fst (filter snd (zip peaks keep)))))"

section \<open>The Household class\<close>

text \<open>
  The attributes \<^verbatim>\<open>__init__\<close> sets, and the two caches
  \<^verbatim>\<open>cook_events\<close> and \<^verbatim>\<open>weight_changes\<close> that the operations attach
  afterwards (empty until then; each is read only after the call that sets it).
  A dictionary is the list of its items in insertion order, updated with
  \<open>AList.update\<close>.
\<close>

record household =
  df_stoves :: dataframe
  stoves :: "string list"
  fuels :: "string list"
  temp_threshold :: int
  time_between_events :: int
  study_duration :: int
  weight_threshold :: pyval
  cook_events :: "(string \<times> nat list) list"
  weight_changes :: "(string \<times> nat list) list"

fun is_str :: "pyval \<Rightarrow> bool" where
  "is_str (PyStr s) = True"
| "is_str v = False"

fun the_str :: "pyval \<Rightarrow> string" where
  "the_str (PyStr s) = s"
| "the_str v = []"

fun the_int :: "pyval \<Rightarrow> int" where
  "the_int (PyInt n) = n"
| "the_int v = 0"

text \<open>\<^verbatim>\<open>type(v) != int or v < 0\<close> is false: \<open>v\<close> is an \<^verbatim>\<open>int\<close> (a \<^verbatim>\<open>bool\<close> is not) and not negative.\<close>

fun nonneg_int :: "pyval \<Rightarrow> bool" where
  "nonneg_int (PyInt n) = (0 \<le> n)"
| "nonneg_int v = False"

fun in_contents :: "string list \<Rightarrow> pyval \<Rightarrow> bool" where
  "in_contents cs (PyStr s) = (s \<in> set cs)"
| "in_contents cs v = False"

text \<open>
  \<^verbatim>\<open>__init__(self, dataframe, stoves, fuels, temp_threshold,
  time_between_events, weight_threshold)\<close>, its checks in the order of the
  source.  \<^verbatim>\<open>weight_threshold\<close> is stored as it comes.
\<close>

fun Household_init ::
  "frame_arg \<Rightarrow> pyval \<Rightarrow> pyval \<Rightarrow> pyval \<Rightarrow> pyval \<Rightarrow> pyval \<Rightarrow> error + household" where
  "Household_init (NotDataFrame v) st fu temp tbe wt =
     Inl (ValueError ''Must put in a dataframe!'')"
| "Household_init (DataFrame df) (PyList st) (PyList fu) temp tbe wt =
     (if \<not> nonneg_int tbe
      then Inl (ValueError ''The time between events must be a positive integer!'')
      else if \<not> nonneg_int temp
      then Inl (ValueError ''The temperature threshold must be a positive integer!'')
      else if \<not> list_all (in_contents (contents df)) st
      then Inl (ValueError ''One or more of the stove inputs were not found in the dataframe.'')
      else if \<not> list_all (in_contents (contents df)) fu
      then Inl (ValueError ''One or more of the fuel inputs were not found in the dataframe.'')
      else if timestamp df = [] then Inl IndexError
      else Inr \<lparr>df_stoves = df, stoves = map the_str st, fuels = map the_str fu,
                temp_threshold = the_int temp, time_between_events = the_int tbe,
                study_duration = last (timestamp df) - hd (timestamp df),
                weight_threshold = wt, cook_events = [], weight_changes = []\<rparr>)"
| "Household_init (DataFrame df) (PyList st) fu temp tbe wt =
     Inl (ValueError ''Must put in a list of fuel types!'')"
| "Household_init (DataFrame df) st fu temp tbe wt =
     Inl (ValueError ''Must put in a list of stove types!'')"

subsection \<open>Checking the requested subjects\<close>

fun check_stove_type_loop :: "string list \<Rightarrow> string list \<Rightarrow> string list \<Rightarrow> error + string list" where
  "check_stove_type_loop sts [] stove_type = Inr stove_type"
| "check_stove_type_loop sts (s # ss) stove_type =
     (if s \<in> set sts then check_stove_type_loop sts ss (stove_type @ [s])
      else Inl (ValueError (s @ '' not found in data set.'')))"

definition check_stove_names :: "household \<Rightarrow> string list \<Rightarrow> error + string list" where
  "check_stove_names h names =
     (case check_stove_type_loop (stoves h) names [] of
        Inl e \<Rightarrow> Inl e
      | Inr stove_type \<Rightarrow>
          if stove_type = [] then Inl (ValueError ''Stove not found in data set.'')
          else Inr stove_type)"

text \<open>
  \<^verbatim>\<open>check_stove_type\<close>.  \<^verbatim>\<open>for s in stove\<close> runs over the elements of a
  list and over the characters of a string.
\<close>

fun check_stove_type :: "household \<Rightarrow> pyval \<Rightarrow> error + string list" where
  "check_stove_type h (PyList xs) =
     (if \<not> list_all is_str xs then Inl (ValueError ''Must input all stoves as strings!'')
      else check_stove_names h (map the_str xs))"
| "check_stove_type h (PyStr s) =
     (if s = ''All'' then Inr (stoves h) else check_stove_names h (map (\<lambda>c. [c]) s))"
| "check_stove_type h v = Inl (ValueError ''Must input stove type as string!'')"

text \<open>
  \<^verbatim>\<open>check_fuel_type\<close>: the loop keeps the configured names and has no
  \<^verbatim>\<open>else\<close>; the error is raised only when nothing was kept, with the loop
  variable \<open>f\<close> (unbound when the request is empty) in its message.
\<close>

definition check_fuel_names :: "household \<Rightarrow> string list \<Rightarrow> error + string list" where
  "check_fuel_names h names =
     (let fuel_type = filter (\<lambda>f. f \<in> set (fuels h)) names in
      if fuel_type = [] then
        (if names = [] then Inl UnboundLocalError
         else Inl (ValueError (last names @ '' not found in data set.'')))
      else Inr fuel_type)"

fun check_fuel_type :: "household \<Rightarrow> pyval \<Rightarrow> error + string list" where
  "check_fuel_type h (PyList xs) =
     (if \<not> list_all is_str xs then Inl (ValueError ''Must input all fuels as strings!'')
      else check_fuel_names h (map the_str xs))"
| "check_fuel_type h (PyStr s) =
     (if s = ''All'' then Inr (fuels h) else check_fuel_names h (map (\<lambda>c. [c]) s))"
| "check_fuel_type h v = Inl (ValueError ''Must input fuel type as string!'')"

subsection \<open>cooking-events\<close>

fun cooking_events_loop ::
  "peak_finder \<Rightarrow> household \<Rightarrow> string list \<Rightarrow> (string \<times> nat) list \<Rightarrow> (string \<times> nat list) list
   \<Rightarrow> error + ((string \<times> nat) list \<times> (string \<times> nat list) list)" where
  "cooking_events_loop fp h [] number_of_cooking_events cook_events_list =
     Inr (number_of_cooking_events, cook_events_list)"
| "cooking_events_loop fp h (s # ss) number_of_cooking_events cook_events_list =
     (case column (df_stoves h) s of
        None \<Rightarrow> Inl KeyError
      | Some x \<Rightarrow>
          (case fp x (of_int (temp_threshold h)) (time_between_events h) of
             Inl e \<Rightarrow> Inl e
           | Inr peaks \<Rightarrow>
               cooking_events_loop fp h ss
                 (AList.update s (length peaks) number_of_cooking_events)
                 (AList.update s peaks cook_events_list)))"

text \<open>
  \<^verbatim>\<open>cooking_events\<close> returns the dictionary of the counts and leaves the
  peaks in \<^verbatim>\<open>self.cook_events\<close>: the result is the pair of the counts and
  the updated object.
\<close>

fun cooking_events ::
  "peak_finder \<Rightarrow> household \<Rightarrow> pyval \<Rightarrow> error + ((string \<times> nat) list \<times> household)" where
  "cooking_events fp h (PyStr s) =
     (case check_stove_type h (PyStr s) of
        Inl e \<Rightarrow> Inl e
      | Inr stove_type \<Rightarrow>
          (case cooking_events_loop fp h stove_type [] [] of
             Inl e \<Rightarrow> Inl e
           | Inr (n, l) \<Rightarrow> Inr (n, h\<lparr>cook_events := l\<rparr>)))"
| "cooking_events fp h v = Inl (ValueError ''Must input fuel type as a string!'')"

subsection \<open>fuel-usage\<close>

text \<open>
  \<^verbatim>\<open>abs(new_weight - weight) < self.weight_threshold\<close>: the threshold is
  whatever the constructor was given; comparing a number with a value that is
  not a number raises.
\<close>

fun lt_threshold :: "real \<Rightarrow> pyval \<Rightarrow> error + bool" where
  "lt_threshold d (PyInt n) = Inr (d < of_int n)"
| "lt_threshold d (PyFloat r) = Inr (d < r)"
| "lt_threshold d (PyBool b) = Inr (d < (if b then 1 else 0))"
| "lt_threshold d v = Inl TypeError"

text \<open>
  The loop of \<^verbatim>\<open>find_significant_changes\<close> over \<^verbatim>\<open>peaks[1:]\<close>.  The
  comparison of the channel's final sample with the last kept weight stands
  inside the loop body, under \<^verbatim>\<open>if i == peaks[-1]\<close>.
\<close>

fun find_significant_changes_loop ::
  "real list \<Rightarrow> pyval \<Rightarrow> nat \<Rightarrow> nat list \<Rightarrow> real \<Rightarrow> nat list \<Rightarrow> error + nat list" where
  "find_significant_changes_loop x wt peaks_last [] weight weight_change = Inr weight_change"
| "find_significant_changes_loop x wt peaks_last (i # rest) weight weight_change =
     (case series_at x i of
        Inl e \<Rightarrow> Inl e
      | Inr new_weight \<Rightarrow>
          (case lt_threshold \<bar>new_weight - weight\<bar> wt of
             Inl e \<Rightarrow> Inl e
           | Inr small \<Rightarrow>
               (let weight_change1 = (if small then weight_change else weight_change @ [i]);
                    weight1 = (if small then weight else new_weight);
                    last_idx = length x - 1;
                    weight_change2 =
                      (if i = peaks_last \<and> x ! last_idx < weight1
                       then weight_change1 @ [last_idx] else weight_change1)
                in find_significant_changes_loop x wt peaks_last rest weight1 weight_change2)))"

definition find_significant_changes :: "household \<Rightarrow> string \<Rightarrow> nat list \<Rightarrow> error + nat list" where
  "find_significant_changes h f peaks =
     (case column (df_stoves h) f of
        None \<Rightarrow> Inl KeyError
      | Some x \<Rightarrow>
          (case peaks of
             [] \<Rightarrow> Inl IndexError
           | p0 # rest \<Rightarrow>
               (case series_at x p0 of
                  Inl e \<Rightarrow> Inl e
                | Inr weight \<Rightarrow>
                    find_significant_changes_loop x (weight_threshold h) (last peaks) rest
                      weight [p0])))"

text \<open>The back-fill of both daily aggregators: a day that has no entry gets 0.\<close>

definition fill_days :: "int list \<Rightarrow> (int \<times> real) list \<Rightarrow> (int \<times> real) list" where
  "fill_days days daily =
     fold (\<lambda>day d. if day \<in> set (map fst d) then d else AList.update day 0 d) days daily"

fun daily_fuel_use_loop ::
  "int list \<Rightarrow> real list \<Rightarrow> int \<Rightarrow> real \<Rightarrow> nat list \<Rightarrow> int \<Rightarrow> real \<Rightarrow> (int \<times> real) list
   \<Rightarrow> error + (int \<times> real) list" where
  "daily_fuel_use_loop ts x study_began initial_weight [] day new_weight daily = Inr daily"
| "daily_fuel_use_loop ts x study_began initial_weight (i # rest) day new_weight daily =
     (case series_at ts i of
        Inl e \<Rightarrow> Inl e
      | Inr t \<Rightarrow>
          (case series_at x i of
             Inl e \<Rightarrow> Inl e
           | Inr w \<Rightarrow>
               if td_days (t - study_began) = day - 1
               then daily_fuel_use_loop ts x study_began initial_weight rest day w
                      (AList.update day (initial_weight - w) daily)
               else daily_fuel_use_loop ts x study_began initial_weight rest (day + 1) new_weight
                      (AList.update (day + 1) (new_weight - w) daily)))"

definition daily_fuel_use :: "household \<Rightarrow> string \<Rightarrow> nat list \<Rightarrow> error + (int \<times> real) list" where
  "daily_fuel_use h fuel changes =
     (let ts = timestamp (df_stoves h); duration_days = td_days (study_duration h) in
      case series_at ts 0 of
        Inl e \<Rightarrow> Inl e
      | Inr study_began \<Rightarrow>
          (case column (df_stoves h) fuel of
             None \<Rightarrow> Inl KeyError
           | Some x \<Rightarrow>
               (case changes of
                  [] \<Rightarrow> Inl IndexError
                | w0 # rest \<Rightarrow>
                    (case series_at x w0 of
                       Inl e \<Rightarrow> Inl e
                     | Inr initial_weight \<Rightarrow>
                         (case daily_fuel_use_loop ts x study_began initial_weight
                                 changes 1 0 [] of
                            Inl e \<Rightarrow> Inl e
                          | Inr daily \<Rightarrow>
                              Inr (if int (length daily) \<noteq> duration_days
                                   then fill_days (map (\<lambda>i. i + 2) [0..duration_days - 2]) daily
                                   else daily))))))"

fun fuel_usage_loop ::
  "peak_finder \<Rightarrow> household \<Rightarrow> string list \<Rightarrow> (int \<times> real) list list \<Rightarrow> (string \<times> nat list) list
   \<Rightarrow> error + ((int \<times> real) list list \<times> (string \<times> nat list) list)" where
  "fuel_usage_loop fp h [] fuel_change fuel_weight_changes =
     Inr (fuel_change, fuel_weight_changes)"
| "fuel_usage_loop fp h (f # fs) fuel_change fuel_weight_changes =
     (case column (df_stoves h) f of
        None \<Rightarrow> Inl KeyError
      | Some x \<Rightarrow>
          (case fp x 1 1 of
             Inl e \<Rightarrow> Inl e
           | Inr peaks \<Rightarrow>
               (case find_significant_changes h f peaks of
                  Inl e \<Rightarrow> Inl e
                | Inr changes \<Rightarrow>
                    (case daily_fuel_use h f changes of
                       Inl e \<Rightarrow> Inl e
                     | Inr daily_usage \<Rightarrow>
                         fuel_usage_loop fp h fs (fuel_change @ [daily_usage])
                           (AList.update f changes fuel_weight_changes)))))"

text \<open>
  The table an operation returns is kept as the list of its rows, each the
  subject's name with its dictionary from day to value.
\<close>

type_synonym day_table = "(string \<times> (int \<times> real) list) list"

definition fuel_usage_body :: "peak_finder \<Rightarrow> household \<Rightarrow> pyval \<Rightarrow> error + (day_table \<times> household)" where
  "fuel_usage_body fp h fuel =
     (case check_fuel_type h fuel of
        Inl e \<Rightarrow> Inl e
      | Inr fuel_type \<Rightarrow>
          (case fuel_usage_loop fp h fuel_type [] [] of
             Inl e \<Rightarrow> Inl e
           | Inr (fuel_change, fuel_weight_changes) \<Rightarrow>
               Inr (zip fuel_type fuel_change, h\<lparr>weight_changes := fuel_weight_changes\<rparr>)))"

fun fuel_usage :: "peak_finder \<Rightarrow> household \<Rightarrow> pyval \<Rightarrow> error + (day_table \<times> household)" where
  "fuel_usage fp h (PyList xs) =
     (if \<not> list_all is_str xs then Inl (ValueError ''Must input all fuels as strings!'')
      else fuel_usage_body fp h (PyList xs))"
| "fuel_usage fp h (PyStr s) = fuel_usage_body fp h (PyStr s)"
| "fuel_usage fp h v = Inl (ValueError ''Must input fuel type as string!'')"

subsection \<open>cooking-duration\<close>

text \<open>
  \<^verbatim>\<open>for j, temp in enumerate(xs): if temp == 0: ...; break\<close>: the position of
  the first zero of \<open>xs\<close>, if it has one.
\<close>

fun first_zero :: "real list \<Rightarrow> nat option" where
  "first_zero [] = None"
| "first_zero (temp # temps) = (if temp = 0 then Some 0 else map_option Suc (first_zero temps))"

text \<open>
  The loop of \<^verbatim>\<open>cooking_durations\<close> over the peaks.  \<^verbatim>\<open>start_time\<close> and
  \<^verbatim>\<open>end_time\<close> are assigned only when a zero is found: until then they are
  unbound, afterwards they keep the value of an earlier event.
\<close>

fun cooking_durations_loop ::
  "real list \<Rightarrow> nat list \<Rightarrow> nat option \<Rightarrow> nat option \<Rightarrow> (nat \<times> nat) list
   \<Rightarrow> error + (nat \<times> nat) list" where
  "cooking_durations_loop cooking_temps [] start_time end_time cooking_event_list =
     Inr cooking_event_list"
| "cooking_durations_loop cooking_temps (i # rest) start_time end_time cooking_event_list =
     (let start_time1 =
            (case first_zero (rev (take i cooking_temps)) of
               Some j \<Rightarrow> Some (i - j) | None \<Rightarrow> start_time);
          end_time1 =
            (case first_zero (drop i cooking_temps) of
               Some k \<Rightarrow> Some (i + k) | None \<Rightarrow> end_time)
      in case start_time1 of
           None \<Rightarrow> Inl UnboundLocalError
         | Some s \<Rightarrow>
             (case end_time1 of
                None \<Rightarrow> Inl UnboundLocalError
              | Some e \<Rightarrow>
                  cooking_durations_loop cooking_temps rest start_time1 end_time1
                    (cooking_event_list @ [(s, e)])))"

definition cooking_durations :: "household \<Rightarrow> string \<Rightarrow> error + (nat \<times> nat) list" where
  "cooking_durations h stove =
     (case map_of (cook_events h) stove of
        None \<Rightarrow> Inl KeyError
      | Some cooking_events_index \<Rightarrow>
          (case column (df_stoves h) stove of
             None \<Rightarrow> Inl KeyError
           | Some cooking_temps \<Rightarrow>
               cooking_durations_loop cooking_temps cooking_events_index None None []))"

fun daily_cooking_time_loop ::
  "int list \<Rightarrow> int \<Rightarrow> (nat \<times> nat) list \<Rightarrow> int \<Rightarrow> real \<Rightarrow> (int \<times> real) list
   \<Rightarrow> error + (int \<times> real) list" where
  "daily_cooking_time_loop ts study_began [] day mins daily_cooking = Inr daily_cooking"
| "daily_cooking_time_loop ts study_began (idx # rest) day mins daily_cooking =
     (case series_at ts (snd idx) of
        Inl e \<Rightarrow> Inl e
      | Inr end_time \<Rightarrow>
          (case series_at ts (fst idx) of
             Inl e \<Rightarrow> Inl e
           | Inr start_time \<Rightarrow>
               (let days_since_start = td_days (end_time - study_began);
                    day1 = (if days_since_start \<noteq> day then day + 1 else day);
                    daily1 = (if days_since_start \<noteq> day
                              then AList.update day1 mins daily_cooking else daily_cooking);
                    mins1 = (if days_since_start \<noteq> day then 0 else mins)
                            + real_of_int (td_seconds (end_time - start_time)) / 60;
                    day2 = (if rest = [] then day1 + 1 else day1);
                    daily2 = (if rest = [] then AList.update day2 mins1 daily1 else daily1)
                in daily_cooking_time_loop ts study_began rest day2 mins1 daily2)))"

definition daily_cooking_time :: "household \<Rightarrow> (nat \<times> nat) list \<Rightarrow> error + (int \<times> real) list" where
  "daily_cooking_time h cooking_durations_list =
     (let ts = timestamp (df_stoves h); duration_days = td_days (study_duration h) in
      case series_at ts 0 of
        Inl e \<Rightarrow> Inl e
      | Inr study_began \<Rightarrow>
          (case daily_cooking_time_loop ts study_began cooking_durations_list 0 0 [] of
             Inl e \<Rightarrow> Inl e
           | Inr daily_cooking \<Rightarrow>
               Inr (if int (length daily_cooking) \<noteq> duration_days
                    then fill_days (map (\<lambda>i. i + 1) [0..duration_days - 1]) daily_cooking
                    else daily_cooking)))"

fun cooking_duration_loop ::
  "household \<Rightarrow> string list \<Rightarrow> (int \<times> real) list list \<Rightarrow> error + (int \<times> real) list list" where
  "cooking_duration_loop h [] all_cooking_info = Inr all_cooking_info"
| "cooking_duration_loop h (s # ss) all_cooking_info =
     (case cooking_durations h s of
        Inl e \<Rightarrow> Inl e
      | Inr cooking_durations_list \<Rightarrow>
          (case daily_cooking_time h cooking_durations_list of
             Inl e \<Rightarrow> Inl e
           | Inr daily_cooking \<Rightarrow>
               cooking_duration_loop h ss (all_cooking_info @ [daily_cooking])))"

definition cooking_duration ::
  "peak_finder \<Rightarrow> household \<Rightarrow> pyval \<Rightarrow> error + (day_table \<times> household)" where
  "cooking_duration fp h stove =
     (case cooking_events fp h stove of
        Inl e \<Rightarrow> Inl e
      | Inr (number_of_cooking_events, h1) \<Rightarrow>
          (case cooking_duration_loop h1 (map fst number_of_cooking_events) [] of
             Inl e \<Rightarrow> Inl e
           | Inr all_cooking_info \<Rightarrow>
               Inr (zip (map fst number_of_cooking_events) all_cooking_info, h1)))"

section \<open>The significant-change filter as specified\<close>

text \<open>
  The filter in the words of the specification, for comparison with
  \<^verbatim>\<open>find_significant_changes\<close>: keep the first index; keep a later candidate
  when its reading differs from the last kept reading by at least the
  threshold; after the last candidate, append the index of the channel's final
  sample when that reading is lower than the last kept one.
\<close>

fun thin_spec :: "real list \<Rightarrow> real \<Rightarrow> nat list \<Rightarrow> real \<Rightarrow> nat list \<Rightarrow> nat list \<times> real" where
  "thin_spec x wt [] last_kept kept = (kept, last_kept)"
| "thin_spec x wt (i # rest) last_kept kept =
     (if wt \<le> \<bar>x ! i - last_kept\<bar> then thin_spec x wt rest (x ! i) (kept @ [i])
      else thin_spec x wt rest last_kept kept)"

definition significant_change_filter_spec :: "real list \<Rightarrow> real \<Rightarrow> nat list \<Rightarrow> nat list" where
  "significant_change_filter_spec x wt peaks =
     (case thin_spec x wt (tl peaks) (x ! hd peaks) [hd peaks] of
        (kept, last_kept) \<Rightarrow>
          if x ! (length x - 1) < last_kept then kept @ [length x - 1] else kept)"

section \<open>Two small studies\<close>

text \<open>
  \<open>example\<close>: five samples at 0 h, 12 h, 24 h, 36 h and 47 h, so the study lasts
  one whole day.  The stove rises once to 20 degrees between two zero readings;
  the wood store has one local maximum (7 kg at sample 3) and ends at 5 kg; the
  column \<open>coal\<close> is flat and is not a configured fuel.
\<close>

definition example :: household where
  "example =
     \<lparr>df_stoves =
        \<lparr>timestamp = [0, 43200000000000, 86400000000000, 129600000000000, 169200000000000],
         channels = [(''wood'', [5, 5, 5, 7, 5]), (''coal'', [5, 5, 5, 5, 5]),
                     (''stove'', [0, 5, 20, 5, 0])]\<rparr>,
      stoves = [''stove''], fuels = [''wood''], temp_threshold = 15,
      time_between_events = 30, study_duration = 169200000000000,
      weight_threshold = PyFloat 0.2, cook_events = [], weight_changes = []\<rparr>"

text \<open>The same study with the flat column configured as a second fuel.\<close>

definition two_fuels :: household where
  "two_fuels = example\<lparr>fuels := [''wood'', ''coal'']\<rparr>"

text \<open>
  \<open>study3\<close>: six samples at 0 h, 1 h, 2 h, 3 h, 4 h and 73 h, a study of three
  whole days with all the activity on the first one.
\<close>

definition study3 :: household where
  "study3 =
     \<lparr>df_stoves =
        \<lparr>timestamp = [0, 3600000000000, 7200000000000, 10800000000000, 14400000000000,
                      262800000000000],
         channels = [(''wood'', [1, 5, 1, 9, 1, 0]), (''stove'', [0, 5, 20, 5, 0, 0])]\<rparr>,
      stoves = [''stove''], fuels = [''wood''], temp_threshold = 15,
      time_between_events = 30, study_duration = 262800000000000,
      weight_threshold = PyFloat 0.2, cook_events = [], weight_changes = []\<rparr>"

section \<open>Properties of the significant-change filter\<close>

lemma count_list_distinct_le: "distinct xs \<Longrightarrow> count_list xs a \<le> 1"
  by (induction xs) (auto simp: count_list_0_iff)

text \<open>
  The loop only appends: per candidate at most the candidate itself, and the
  final sample's index once for every candidate equal to \<^verbatim>\<open>peaks[-1]\<close>.
\<close>

lemma find_significant_changes_loop_grows:
  "find_significant_changes_loop x wt pl rest weight wc = Inr out \<Longrightarrow>
     (\<exists>suffix. out = wc @ suffix) \<and> length out \<le> length wc + length rest + count_list rest pl"
proof (induction rest arbitrary: weight wc)
  case Nil
  then show ?case by simp
next
  case (Cons i rest)
  from Cons.prems obtain nw small where
    nw: "series_at x i = Inr nw" and sm: "lt_threshold \<bar>nw - weight\<bar> wt = Inr small"
    by (auto split: sum.splits)
  let ?wc1 = "if small then wc else wc @ [i]"
  let ?w1 = "if small then weight else nw"
  let ?wc2 = "if i = pl \<and> x ! (length x - 1) < ?w1 then ?wc1 @ [length x - 1] else ?wc1"
  from Cons.prems have "find_significant_changes_loop x wt pl rest ?w1 ?wc2 = Inr out"
    by (simp only: find_significant_changes_loop.simps nw sm sum.case Let_def)
  from Cons.IH [OF this] obtain suffix where
    s: "out = ?wc2 @ suffix" and l: "length out \<le> length ?wc2 + length rest + count_list rest pl"
    by blast
  have "\<exists>suffix. out = wc @ suffix" using s by (auto split: if_splits)
  moreover have "length ?wc2 \<le> length wc + 1 + (if i = pl then 1 else 0)" by simp
  then have "length out \<le> length wc + length (i # rest) + count_list (i # rest) pl"
    using l by (simp split: if_splits)
  ultimately show ?case by blast
qed

text \<open>
  C6, as the code has it: a result of \<^verbatim>\<open>find_significant_changes\<close> starts
  with the first candidate, and for pairwise distinct candidates (the peak
  detector's indices increase strictly) it is at most one element longer than
  the candidate sequence; the extra element is the appended index of the
  channel's final sample.
\<close>

theorem find_significant_changes_bound:
  assumes "find_significant_changes h f peaks = Inr wc"
  shows "peaks \<noteq> [] \<and> wc \<noteq> [] \<and> hd wc = hd peaks
         \<and> length wc \<le> length peaks + count_list (tl peaks) (last peaks)
         \<and> (distinct peaks \<longrightarrow> length wc \<le> length peaks + 1)"
proof -
  from assms obtain x p0 rest weight where
    p: "peaks = p0 # rest" and
    l: "find_significant_changes_loop x (weight_threshold h) (last peaks) rest weight [p0] = Inr wc"
    by (auto simp: find_significant_changes_def split: option.splits list.splits sum.splits)
  from find_significant_changes_loop_grows [OF l] obtain suffix where
    s: "wc = [p0] @ suffix" and
    b: "length wc \<le> length [p0] + length rest + count_list rest (last peaks)"
    by blast
  have "distinct peaks \<Longrightarrow> count_list rest (last peaks) \<le> 1"
    using p count_list_distinct_le [of rest "last peaks"] by simp
  with p s b show ?thesis by auto
qed

theorem find_significant_changes_bound_witness:
  "find_peaks [5, 5, 5, 7, 5] 1 1 = Inr [3]
   \<and> find_significant_changes example ''wood'' [3] = Inr [3]
   \<and> hd [3::nat] = hd [3] \<and> length [3::nat] \<le> length [3::nat] + 1"
proof -
  have p: "find_peaks [5, 5, 5, 7, 5] 1 1 = Inr [3]" by code_simp
  have r: "find_significant_changes example ''wood'' [3] = Inr [3]" by code_simp
  from find_significant_changes_bound [OF r] p r show ?thesis by simp
qed

text \<open>
  C6 as stated fails: in \<open>study3\<close> the wood channel \<open>[1, 5, 1, 9, 1, 0]\<close> has
  the candidates 1 and 3; both are kept (9 differs from 5 by more than 0.2) and
  the final sample (0 kg, lower than 9 kg) is appended: three indices from two.
\<close>

theorem find_significant_changes_longer:
  "find_peaks [1, 5, 1, 9, 1, 0] 1 1 = Inr [1, 3]
   \<and> find_significant_changes study3 ''wood'' [1, 3] = Inr [1, 3, 5]
   \<and> length [1, 3::nat] < length [1, 3, 5::nat]"
  by code_simp

text \<open>
  With two or more pairwise distinct candidates inside the channel and a
  numeric threshold, the code computes the specified filter.
\<close>

lemma find_significant_changes_loop_spec:
  "rest \<noteq> [] \<Longrightarrow> distinct rest \<Longrightarrow> \<forall>i\<in>set rest. i < length x \<Longrightarrow>
   find_significant_changes_loop x (PyFloat wt) (last rest) rest weight wc =
     Inr (case thin_spec x wt rest weight wc of
            (kept, last_kept) \<Rightarrow>
              if x ! (length x - 1) < last_kept then kept @ [length x - 1] else kept)"
proof (induction rest arbitrary: weight wc)
  case Nil
  then show ?case by simp
next
  case (Cons i rest)
  show ?case
  proof (cases "rest = []")
    case True
    with Cons.prems show ?thesis by (simp add: series_at_def Let_def not_less)
  next
    case False
    with Cons.prems have ne: "i \<noteq> last rest" by auto
    from Cons.prems False have IH:
      "find_significant_changes_loop x (PyFloat wt) (last rest) rest w c =
         Inr (case thin_spec x wt rest w c of
            (kept, last_kept) \<Rightarrow>
              if x ! (length x - 1) < last_kept then kept @ [length x - 1] else kept)" for w c
      using Cons.IH [of w c] by simp
    from Cons.prems have "i < length x" by simp
    with False ne show ?thesis by (simp add: series_at_def Let_def IH not_less)
  qed
qed

lemma find_significant_changes_spec:
  assumes "column (df_stoves h) f = Some x" and "weight_threshold h = PyFloat wt"
    and "2 \<le> length peaks" and "distinct peaks" and "\<forall>i\<in>set peaks. i < length x"
  shows "find_significant_changes h f peaks = Inr (significant_change_filter_spec x wt peaks)"
proof -
  from assms(3) obtain p0 rest where p: "peaks = p0 # rest" and r: "rest \<noteq> []"
    by (cases peaks) (auto simp: Suc_le_eq)
  from assms(4,5) p have "distinct rest" "\<forall>i\<in>set rest. i < length x" "p0 < length x" by auto
  with r assms(1,2) show ?thesis
    by (simp add: find_significant_changes_def significant_change_filter_spec_def p series_at_def
        find_significant_changes_loop_spec)
qed

text \<open>
  C3 at a single candidate: in \<open>example\<close> the wood channel \<open>[5, 5, 5, 7, 5]\<close> has
  the one candidate 3 (7 kg).  The final sample (index 4, 5 kg) is strictly
  lower than the last kept reading, yet its index is not appended: the
  comparison stands inside the loop over \<^verbatim>\<open>peaks[1:]\<close>, which is empty.
\<close>

theorem find_significant_changes_single_peak:
  "find_peaks [5, 5, 5, 7, 5] 1 1 = Inr [3]
   \<and> column (df_stoves example) ''wood'' = Some [5, 5, 5, 7, 5]
   \<and> find_significant_changes example ''wood'' [3] = Inr [3]
   \<and> significant_change_filter_spec [5, 5, 5, 7, 5] 0.2 [3] = [3, 4]"
  by code_simp

section \<open>Properties of the subject checks\<close>

text \<open>
  C4 at a request with an unknown fuel: \<open>example\<close> has the one fuel \<open>wood\<close>.
  Asked for \<open>wood\<close> and \<open>lpg\<close>, \<^verbatim>\<open>check_fuel_type\<close> drops \<open>lpg\<close> without an
  error and \<^verbatim>\<open>fuel_usage\<close> returns the table of \<open>wood\<close>
  (\<^verbatim>\<open>check_stove_type\<close> raises in the same situation).
\<close>

theorem fuel_usage_unknown_fuel_dropped:
  "check_fuel_type example (PyList [PyStr ''wood'', PyStr ''lpg'']) = Inr [''wood'']
   \<and> map_sum id fst (fuel_usage find_peaks example (PyList [PyStr ''wood'', PyStr ''lpg'']))
       = Inr [(''wood'', [(2, - 7)])]
   \<and> check_stove_type example (PyList [PyStr ''stove'', PyStr ''lpg''])
       = Inl (ValueError ''lpg not found in data set.'')"
  by code_simp

text \<open>
  C5 at a configured name given as a plain string, and at a list: the string
  \<open>stove\<close> is read character by character and its first character is not a
  stove; a list is refused by \<^verbatim>\<open>cooking_events\<close> before the check; the fuel
  name \<open>wood\<close> fares like the stove's.  Only \<open>All\<close> succeeds.
\<close>

theorem cooking_events_single_name:
  "cooking_events fp example (PyStr ''stove'') = Inl (ValueError ''s not found in data set.'')
   \<and> cooking_duration fp example (PyStr ''stove'') = Inl (ValueError ''s not found in data set.'')
   \<and> cooking_events fp example (PyList [PyStr ''stove''])
       = Inl (ValueError ''Must input fuel type as a string!'')
   \<and> fuel_usage fp example (PyStr ''wood'') = Inl (ValueError ''d not found in data set.'')
   \<and> map_sum id fst (cooking_events find_peaks example (PyStr ''All'')) = Inr [(''stove'', 1)]"
proof -
  have a: "cooking_events fp example (PyStr ''stove'') = Inl (ValueError ''s not found in data set.'')"
    by (simp add: example_def check_stove_names_def)
  have b: "cooking_events fp example (PyList [PyStr ''stove''])
       = Inl (ValueError ''Must input fuel type as a string!'')"
    by simp
  have c: "fuel_usage fp example (PyStr ''wood'') = Inl (ValueError ''d not found in data set.'')"
    by (simp add: example_def fuel_usage_body_def check_fuel_names_def)
  have d: "map_sum id fst (cooking_events find_peaks example (PyStr ''All'')) = Inr [(''stove'', 1)]"
    by code_simp
  from a b c d show ?thesis by (simp add: cooking_duration_def)
qed

text \<open>
  C8 at \<^verbatim>\<open>time_between_events = 0\<close>: the constructor accepts the value (its
  check is \<^verbatim>\<open>< 0\<close>, its docstring asks for a value greater than or equal to
  zero), and peak detection then fails, since scipy refuses a distance below 1.
\<close>

theorem cooking_events_zero_distance:
  "Household_init (DataFrame (df_stoves example)) (PyList [PyStr ''stove''])
       (PyList [PyStr ''wood'']) (PyInt 15) (PyInt 0) (PyFloat 0.2)
     = Inr (example\<lparr>time_between_events := 0\<rparr>)
   \<and> cooking_events find_peaks (example\<lparr>time_between_events := 0\<rparr>) (PyStr ''All'')
       = Inl (ValueError ''distance must be greater or equal to 1'')"
  by code_simp

section \<open>Fuels without a candidate\<close>

lemma find_significant_changes_empty:
  "column (df_stoves h) f = Some x \<Longrightarrow> find_significant_changes h f [] = Inl IndexError"
  by (simp add: find_significant_changes_def)

lemma fuel_usage_loop_empty_first:
  "column (df_stoves h) f = Some x \<Longrightarrow> fp x 1 1 = Inr [] \<Longrightarrow>
     fuel_usage_loop fp h (f # fs) fc fwc = Inl IndexError"
  by (simp add: find_significant_changes_def)

lemma fuel_usage_loop_empty_fails:
  "f \<in> set fs \<Longrightarrow> column (df_stoves h) f = Some x \<Longrightarrow> fp x 1 1 = Inr [] \<Longrightarrow>
     isl (fuel_usage_loop fp h fs fc fwc)"
proof (induction fs arbitrary: fc fwc)
  case Nil
  then show ?case by simp
next
  case (Cons g gs)
  show ?case
  proof (cases "g = f")
    case True
    with Cons.prems show ?thesis by (simp add: find_significant_changes_def)
  next
    case False
    with Cons.prems have "f \<in> set gs" by simp
    from Cons.IH [OF this Cons.prems(2,3)] show ?thesis
      by (simp split: option.splits sum.splits)
  qed
qed

lemma fuel_usage_checked:
  "check_fuel_type h fuel = Inr fuel_type \<Longrightarrow> fuel_usage fp h fuel = fuel_usage_body fp h fuel"
  by (cases fuel) (auto split: if_splits)

text \<open>
  C9: when the peak detector (height 1, distance 1) returns no index for the
  channel of a requested fuel, \<^verbatim>\<open>find_significant_changes\<close> fails on
  \<^verbatim>\<open>peaks[0]\<close> with an IndexError, so \<^verbatim>\<open>fuel_usage\<close> returns no table; the
  error it raises is that IndexError when the fuel is the first one processed.
  This holds for every detector.
\<close>

theorem fuel_usage_no_candidate:
  assumes "check_fuel_type h fuel = Inr fuel_type" and "f \<in> set fuel_type"
    and "column (df_stoves h) f = Some x" and "fp x 1 1 = Inr []"
  shows "find_significant_changes h f [] = Inl IndexError
         \<and> isl (fuel_usage fp h fuel)
         \<and> (f = hd fuel_type \<longrightarrow> fuel_usage fp h fuel = Inl IndexError)"
proof -
  have a: "find_significant_changes h f [] = Inl IndexError"
    using assms(3) by (rule find_significant_changes_empty)
  have body: "fuel_usage fp h fuel = fuel_usage_body fp h fuel"
    using assms(1) by (rule fuel_usage_checked)
  have "isl (fuel_usage_loop fp h fuel_type [] [])"
    using assms(2-4) by (rule fuel_usage_loop_empty_fails)
  then have b: "isl (fuel_usage fp h fuel)"
    using assms(1) by (auto simp: body fuel_usage_body_def isl_def)
  have c: "fuel_usage fp h fuel = Inl IndexError" if "f = hd fuel_type"
  proof -
    from assms(2) that obtain fs where "fuel_type = f # fs" by (cases fuel_type) auto
    then show ?thesis
      using assms(1,3,4) fuel_usage_loop_empty_first [where h=h and f=f and x=x and fp=fp]
      by (simp add: body fuel_usage_body_def)
  qed
  from a b c show ?thesis by blast
qed

theorem fuel_usage_no_candidate_witness:
  "check_fuel_type two_fuels (PyList [PyStr ''coal'']) = Inr [''coal'']
   \<and> column (df_stoves two_fuels) ''coal'' = Some [5, 5, 5, 5, 5]
   \<and> find_peaks [5, 5, 5, 5, 5] 1 1 = Inr []
   \<and> find_peaks [0, 1 / 2, 0] 1 1 = Inr []
   \<and> find_significant_changes two_fuels ''coal'' [] = Inl IndexError
   \<and> fuel_usage find_peaks two_fuels (PyList [PyStr ''coal'']) = Inl IndexError"
proof -
  have a: "check_fuel_type two_fuels (PyList [PyStr ''coal'']) = Inr [''coal'']" by code_simp
  have b: "column (df_stoves two_fuels) ''coal'' = Some [5, 5, 5, 5, 5]" by code_simp
  have c: "find_peaks [5, 5, 5, 5, 5] 1 1 = Inr []" by code_simp
  have l: "find_peaks [0, 1 / 2, 0] 1 1 = Inr []" by code_simp
  have m: "''coal'' \<in> set [''coal'']" by simp
  from fuel_usage_no_candidate [where fp = find_peaks, OF a m b c] a b c l show ?thesis by simp
qed

section \<open>Properties of the event boundaries\<close>

text \<open>
  For one peak at index \<open>i\<close> the two scans return a pair \<open>(s, e)\<close> around the
  peak.  The end is the nearest zero reading at or after the peak.  The start is
  the index after the nearest zero reading before the peak: the zero is at
  \<open>s - 1\<close>, since element \<open>j\<close> of the reversed first half is sample
  \<open>i - 1 - j\<close> and the code records \<open>i - j\<close>.
\<close>

lemma first_zero_Some:
  "first_zero xs = Some j \<Longrightarrow> j < length xs \<and> xs ! j = 0 \<and> (\<forall>k<j. xs ! k \<noteq> 0)"
proof (induction xs arbitrary: j)
  case Nil
  then show ?case by simp
next
  case (Cons x xs)
  show ?case
  proof (cases "x = 0")
    case True
    with Cons.prems show ?thesis by simp
  next
    case False
    with Cons.prems obtain j' where j: "j = Suc j'" and f: "first_zero xs = Some j'" by auto
    from Cons.IH [OF f] False show ?thesis by (auto simp: j nth_Cons split: nat.splits)
  qed
qed

lemma cooking_durations_single_event:
  assumes run: "cooking_durations_loop temps [i] None None [] = Inr evs" and i: "i \<le> length temps"
  shows "\<exists>s e. evs = [(s, e)] \<and> 1 \<le> s \<and> s \<le> i \<and> i \<le> e \<and> e < length temps
           \<and> temps ! (s - 1) = 0 \<and> temps ! e = 0
           \<and> (\<forall>k. s \<le> k \<and> k < i \<longrightarrow> temps ! k \<noteq> 0)
           \<and> (\<forall>k. i \<le> k \<and> k < e \<longrightarrow> temps ! k \<noteq> 0)"
proof -
  from run obtain j k where
    j: "first_zero (rev (take i temps)) = Some j" and
    k: "first_zero (drop i temps) = Some k" and
    evs: "evs = [(i - j, i + k)]"
    by (auto simp: Let_def split: option.splits)
  from first_zero_Some [OF j] i have jl: "j < i" and
    jz: "rev (take i temps) ! j = 0" and jn: "\<forall>m<j. rev (take i temps) ! m \<noteq> 0"
    by auto
  have rv: "rev (take i temps) ! m = temps ! (i - 1 - m)" if "m < i" for m
    using that i by (simp add: rev_nth min_def)
  from first_zero_Some [OF k] have kl: "i + k < length temps" and
    kz: "temps ! (i + k) = 0" and kn: "\<forall>m<k. temps ! (i + m) \<noteq> 0"
    using i by auto
  have a: "temps ! (i - j - 1) = 0" using jz rv [OF jl] by simp
  have b: "temps ! m \<noteq> 0" if "i - j \<le> m" "m < i" for m
  proof -
    from that jl have "i - 1 - m < j" by arith
    with jn have "rev (take i temps) ! (i - 1 - m) \<noteq> 0" by blast
    moreover from that have "i - 1 - m < i" by arith
    ultimately show ?thesis using rv [of "i - 1 - m"] that by simp
  qed
  have c: "temps ! m \<noteq> 0" if "i \<le> m" "m < i + k" for m
  proof -
    from that have "m - i < k" by arith
    with kn have "temps ! (i + (m - i)) \<noteq> 0" by blast
    with that show ?thesis by simp
  qed
  from jl kl kz a b c show ?thesis unfolding evs by auto
qed

text \<open>
  C1 at one event: in \<open>example\<close> the stove channel is \<open>[0, 5, 20, 5, 0]\<close>
  with its peak at index 2 and zero readings on both sides.  The boundary pair
  is (1, 4): the end is the zero after the peak, the start is the sample after
  the zero before it, where the reading is 5.
\<close>

theorem cooking_durations_start_after_zero:
  "map_sum id (cook_events \<circ> snd) (cooking_events find_peaks example (PyStr ''All''))
     = Inr [(''stove'', [2])]
   \<and> column (df_stoves example) ''stove'' = Some [0, 5, 20, 5, 0]
   \<and> cooking_durations (example\<lparr>cook_events := [(''stove'', [2])]\<rparr>) ''stove'' = Inr [(1, 4)]
   \<and> [0, 5, 20, 5, 0 :: real] ! 1 = 5 \<and> [0, 5, 20, 5, 0 :: real] ! 4 = 0"
  by code_simp

section \<open>Timedeltas and dictionaries\<close>

lemma update_fresh: "k \<notin> fst ` set al \<Longrightarrow> AList.update k v al = al @ [(k, v)]"
  by (induction al) auto

lemma upto_snoc: "a \<le> day + 1 \<Longrightarrow> [a..day] @ [day + 1] = [a..day + 1]"
  using upto_rec2 [of a "day + 1"] by simp

lemma td_seconds_range: "0 \<le> td_seconds d \<and> td_seconds d < 86400"
proof -
  let ?r = "d mod 86400000000000"
  have lo: "0 \<le> ?r" and hi: "?r \<le> 86399999999999" by simp_all
  have "0 div 1000000000 \<le> ?r div 1000000000" using lo by (rule zdiv_mono1) simp
  moreover have "?r div 1000000000 \<le> 86399999999999 div 1000000000"
    using hi by (rule zdiv_mono1) simp
  ultimately show ?thesis by (simp add: td_seconds_def)
qed


lemma td_seconds_alt: "td_seconds d = (d div 1000000000) mod 86400"
proof -
  have n: "(86400000000000::int) = 1000000000 * 86400" by simp
  have "d mod (1000000000 * 86400) = 1000000000 * (d div 1000000000 mod 86400) + d mod 1000000000"
    by (rule zmod_zmult2_eq) simp
  then have "(d mod (1000000000 * 86400)) div 1000000000 = d div 1000000000 mod 86400"
    by (simp only: div_mult_self2 mod_div_trivial)
  then show ?thesis unfolding td_seconds_def n .
qed

lemma series_at_cases: "series_at xs i = Inl KeyError \<or> series_at xs i = Inr (xs ! i)"
  by (simp add: series_at_def)

lemma keys_upto: "map fst d = [a..day] \<Longrightarrow> fst ` set d = {a..day}"
proof -
  assume "map fst d = [a..day]"
  then have "set (map fst d) = set [a..day]" by (rule arg_cong)
  then show ?thesis by simp
qed

section \<open>The daily cooking time\<close>

text \<open>
  One pass of the loop of \<^verbatim>\<open>daily_cooking_time\<close>.  The keys of the
  dictionary are always \<open>1, ..., day\<close>, so each \<^verbatim>\<open>update\<close> adds a new key:
  the minutes of an event are added to \<open>mins\<close> and reach the dictionary when
  the day is closed, at the latest at the last event.
\<close>

lemma daily_cooking_time_step:
  assumes run: "daily_cooking_time_loop ts b (ev # rest) day mins d = Inr out"
    and keys: "map fst d = [1..day]" and day0: "0 \<le> day"
  shows "\<exists>day2 mins1 d2.
    daily_cooking_time_loop ts b rest day2 mins1 d2 = Inr out
    \<and> map fst d2 = [1..day2] \<and> day \<le> day2
    \<and> set (map snd d2) \<subseteq> set (map snd d) \<union> {mins, mins1}
    \<and> (0 \<le> mins \<longrightarrow> 0 \<le> mins1)
    \<and> sum_list (map snd d2) + (if rest = [] then 0 else mins1) =
       sum_list (map snd d) + mins + real_of_int (td_seconds (ts ! snd ev - ts ! fst ev)) / 60"
proof -
  have e: "series_at ts (snd ev) = Inr (ts ! snd ev)"
  proof (rule disjE [OF series_at_cases [of ts "snd ev"]])
    assume "series_at ts (snd ev) = Inl KeyError"
    with run have "Inl KeyError = Inr out"
      by (simp only: daily_cooking_time_loop.simps sum.case)
    then show ?thesis by simp
  qed
  have s: "series_at ts (fst ev) = Inr (ts ! fst ev)"
  proof (rule disjE [OF series_at_cases [of ts "fst ev"]])
    assume "series_at ts (fst ev) = Inl KeyError"
    with run have "Inl KeyError = Inr out"
      by (simp only: daily_cooking_time_loop.simps e sum.case)
    then show ?thesis by simp
  qed
  define c where "c = (td_days (ts ! snd ev - b) \<noteq> day)"
  define day1 where "day1 = (if c then day + 1 else day)"
  define d1 where "d1 = (if c then AList.update day1 mins d else d)"
  define mins1 where
    "mins1 = (if c then 0 else mins) + real_of_int (td_seconds (ts ! snd ev - ts ! fst ev)) / 60"
  define day2 where "day2 = (if rest = [] then day1 + 1 else day1)"
  define d2 where "d2 = (if rest = [] then AList.update day2 mins1 d1 else d1)"
  note unfolded = run [unfolded daily_cooking_time_loop.simps e s sum.case Let_def]
  have run': "daily_cooking_time_loop ts b rest day2 mins1 d2 = Inr out"
    unfolding d2_def day2_def mins1_def d1_def day1_def c_def by (rule unfolded)
  have fresh: "day + 1 \<notin> fst ` set d" using keys_upto [OF keys] by simp
  have d1: "d1 = (if c then d @ [(day + 1, mins)] else d)"
    using fresh by (simp add: d1_def day1_def update_fresh)
  have k1: "map fst d1 = [1..day1]"
    using keys day0 by (simp add: d1 day1_def upto_snoc)
  have fresh1: "day1 + 1 \<notin> fst ` set d1" using keys_upto [OF k1] by simp
  have day1: "0 \<le> day1" "day \<le> day1" using day0 by (simp_all add: day1_def)
  have d2: "d2 = (if rest = [] then d1 @ [(day1 + 1, mins1)] else d1)"
    using fresh1 by (simp add: d2_def day2_def update_fresh)
  have k2: "map fst d2 = [1..day2]"
    using k1 day1 by (simp add: d2 day2_def upto_snoc)
  have le: "day \<le> day2" using day1 by (simp add: day2_def)
  have vals: "set (map snd d2) \<subseteq> set (map snd d) \<union> {mins, mins1}"
    by (auto simp: d2 d1 split: if_splits)
  have m1: "0 \<le> mins \<Longrightarrow> 0 \<le> mins1"
    using td_seconds_range [of "ts ! snd ev - ts ! fst ev"] by (simp add: mins1_def)
  have sum: "sum_list (map snd d2) + (if rest = [] then 0 else mins1) =
       sum_list (map snd d) + mins + real_of_int (td_seconds (ts ! snd ev - ts ! fst ev)) / 60"
    by (simp add: d2 d1 mins1_def)
  from run' k2 le vals m1 sum show ?thesis by blast
qed

lemma daily_cooking_time_loop_inv:
  "daily_cooking_time_loop ts b evs day mins d = Inr out \<Longrightarrow> map fst d = [1..day] \<Longrightarrow> 0 \<le> day \<Longrightarrow>
   (\<exists>day'. day \<le> day' \<and> map fst out = [1..day'])
   \<and> (0 \<le> mins \<and> (\<forall>v\<in>set (map snd d). 0 \<le> v) \<longrightarrow> (\<forall>v\<in>set (map snd out). 0 \<le> v))
   \<and> sum_list (map snd out) = sum_list (map snd d)
        + (if evs = [] then 0
           else mins + (\<Sum>ev\<leftarrow>evs. real_of_int (td_seconds (ts ! snd ev - ts ! fst ev)) / 60))"
proof (induction evs arbitrary: day mins d)
  case Nil
  then show ?case by auto
next
  case (Cons ev rest)
  from daily_cooking_time_step [OF Cons.prems] obtain day2 mins1 d2 where
    run': "daily_cooking_time_loop ts b rest day2 mins1 d2 = Inr out" and
    k2: "map fst d2 = [1..day2]" and le: "day \<le> day2" and
    vals: "set (map snd d2) \<subseteq> set (map snd d) \<union> {mins, mins1}" and
    m1: "0 \<le> mins \<longrightarrow> 0 \<le> mins1" and
    sum: "sum_list (map snd d2) + (if rest = [] then 0 else mins1) =
       sum_list (map snd d) + mins + real_of_int (td_seconds (ts ! snd ev - ts ! fst ev)) / 60"
    by blast
  from le Cons.prems(3) have day2: "0 \<le> day2" by simp
  note IH = Cons.IH [OF run' k2 day2]
  from IH obtain day' where d': "day2 \<le> day'" "map fst out = [1..day']" by blast
  have a: "\<exists>day'. day \<le> day' \<and> map fst out = [1..day']"
    using d' le by (intro exI [of _ day']) simp
  have b: "\<forall>v\<in>set (map snd out). 0 \<le> v"
    if "0 \<le> mins" and "\<forall>v\<in>set (map snd d). 0 \<le> v"
  proof -
    from that m1 have "0 \<le> mins1" by simp
    moreover from that this vals have "\<forall>v\<in>set (map snd d2). 0 \<le> v" by blast
    ultimately show ?thesis using IH by blast
  qed
  from IH have s: "sum_list (map snd out) = sum_list (map snd d2)
        + (if rest = [] then 0
           else mins1 + (\<Sum>ev\<leftarrow>rest. real_of_int (td_seconds (ts ! snd ev - ts ! fst ev)) / 60))"
    by blast
  have c: "sum_list (map snd out) = sum_list (map snd d)
        + (mins + (\<Sum>ev\<leftarrow>ev # rest. real_of_int (td_seconds (ts ! snd ev - ts ! fst ev)) / 60))"
    using s sum by (cases "rest = []") simp_all
  from a b c show ?case by simp
qed

text \<open>The back-fill adds the missing days with 0 and changes nothing else.\<close>

lemma fill_days_Cons:
  "fill_days (day # days) d =
     fill_days days (if day \<in> fst ` set d then d else d @ [(day, 0)])"
  by (simp add: fill_days_def update_fresh)

lemma fill_days_Nil: "fill_days [] d = d"
  by (simp add: fill_days_def)

lemma fill_step_props:
  fixes d :: "(int \<times> real) list" and day :: int
  defines "d' \<equiv> (if day \<in> fst ` set d then d else d @ [(day, 0)])"
  shows "fst ` set d' = insert day (fst ` set d)"
    and "snd ` set d' \<subseteq> snd ` set d \<union> {0}"
    and "sum_list (map snd d') = sum_list (map snd d)"
    and "distinct (map fst d) \<Longrightarrow> distinct (map fst d')"
  unfolding d'_def by (cases "day \<in> fst ` set d"; auto)+

lemma fill_days_props:
  "fst ` set (fill_days days d) = fst ` set d \<union> set days
   \<and> snd ` set (fill_days days d) \<subseteq> snd ` set d \<union> {0}
   \<and> sum_list (map snd (fill_days days d)) = sum_list (map snd d)
   \<and> (distinct (map fst d) \<longrightarrow> distinct (map fst (fill_days days d)))"
proof (induction days arbitrary: d)
  case Nil
  show ?case by (simp add: fill_days_Nil subset_insertI)
next
  case (Cons day days)
  define d' where "d' = (if day \<in> fst ` set d then d else d @ [(day, 0)])"
  note st = fill_step_props [where d = d and day = day, folded d'_def]
  note IH = Cons.IH [of d']
  have eq: "fill_days (day # days) d = fill_days days d'"
    by (simp add: fill_days_Cons d'_def)
  have "fst ` set (fill_days days d') = fst ` set d \<union> set (day # days)"
    using IH st(1) by simp
  moreover have "snd ` set (fill_days days d') \<subseteq> snd ` set d \<union> {0}"
    using IH st(2) by blast
  moreover have "sum_list (map snd (fill_days days d')) = sum_list (map snd d)"
    using IH st(3) by simp
  moreover have "distinct (map fst d) \<longrightarrow> distinct (map fst (fill_days days d'))"
    using IH st(4) by blast
  ultimately show ?case unfolding eq by blast
qed

lemma daily_cooking_time_props:
  assumes "daily_cooking_time h evs = Inr daily"
  shows "{1..td_days (study_duration h)} \<subseteq> fst ` set daily
    \<and> (\<forall>v\<in>snd ` set daily. 0 \<le> v)
    \<and> distinct (map fst daily)
    \<and> sum_list (map snd daily) =
        (\<Sum>ev\<leftarrow>evs. real_of_int (td_seconds (timestamp (df_stoves h) ! snd ev
                                              - timestamp (df_stoves h) ! fst ev)) / 60)"
proof -
  define ts where "ts = timestamp (df_stoves h)"
  define D where "D = td_days (study_duration h)"
  from assms obtain b out where
    loop: "daily_cooking_time_loop ts b evs 0 0 [] = Inr out" and
    daily: "daily = (if int (length out) \<noteq> D
                     then fill_days (map (\<lambda>i. i + 1) [0..D - 1]) out else out)"
    by (auto simp: daily_cooking_time_def Let_def ts_def D_def split: sum.splits)
  have "map fst ([] :: (int \<times> real) list) = [1..0]" by simp
  from daily_cooking_time_loop_inv [OF loop this] obtain day' where
    day': "0 \<le> day'" and keys: "map fst out = [1..day']" and
    vals: "\<forall>v\<in>set (map snd out). 0 \<le> v" and
    sum: "sum_list (map snd out) =
        (\<Sum>ev\<leftarrow>evs. real_of_int (td_seconds (ts ! snd ev - ts ! fst ev)) / 60)"
    by (cases "evs = []") auto
  have dom: "fst ` set out = {1..day'}" using keys by (rule keys_upto)
  have "length (map fst out) = length [1..day']" by (simp only: keys)
  then have len: "int (length out) = day'" using day' by simp
  have dist: "distinct (map fst out)" by (simp add: keys)
  have days: "set (map (\<lambda>i. i + 1) [0..D - 1]) = {1..D}"
    using image_add_atLeastAtMost' [of 1 0 "D - 1"] by simp
  note fd = fill_days_props [of "map (\<lambda>i. i + 1) [0..D - 1]" out]
  show ?thesis
  proof (cases "int (length out) \<noteq> D")
    case True
    then have d: "daily = fill_days (map (\<lambda>i. i + 1) [0..D - 1]) out" by (simp add: daily)
    have a: "{1..D} \<subseteq> fst ` set daily" using fd days unfolding d by blast
    have "snd ` set daily \<subseteq> snd ` set out \<union> {0}" using fd unfolding d by blast
    moreover have "\<forall>v\<in>snd ` set out. 0 \<le> v" using vals by simp
    ultimately have b: "\<forall>v\<in>snd ` set daily. 0 \<le> v" by fastforce
    have c: "distinct (map fst daily)" using fd dist unfolding d by blast
    have e: "sum_list (map snd daily) = sum_list (map snd out)" using fd unfolding d by blast
    from a b c e sum show ?thesis unfolding D_def ts_def by simp
  next
    case False
    then have d: "daily = out" by (simp add: daily)
    from False len have "day' = D" by simp
    with dom vals dist sum show ?thesis unfolding d D_def ts_def by simp
  qed
qed

lemma cooking_events_state:
  "cooking_events fp h stove = Inr (n, h1) \<Longrightarrow> \<exists>l. h1 = h\<lparr>cook_events := l\<rparr>"
  by (cases stove) (auto split: sum.splits)

lemma cooking_duration_loop_rows:
  "cooking_duration_loop h ss acc = Inr info \<Longrightarrow>
     \<forall>d\<in>set info. d \<in> set acc \<or> (\<exists>evs. daily_cooking_time h evs = Inr d)"
proof (induction ss arbitrary: acc)
  case Nil
  then show ?case by simp
next
  case (Cons s ss)
  from Cons.prems obtain evs daily where
    dc: "daily_cooking_time h evs = Inr daily" and
    run: "cooking_duration_loop h ss (acc @ [daily]) = Inr info"
    by (auto split: sum.splits)
  from Cons.IH [OF run] dc show ?case by auto
qed

lemma cooking_duration_rows:
  assumes "cooking_duration fp h stove = Inr (table, h1)"
  shows "\<forall>row\<in>set table. \<exists>evs. daily_cooking_time h1 evs = Inr (snd row)"
    and "study_duration h1 = study_duration h" and "df_stoves h1 = df_stoves h"
proof -
  from assms obtain n info where
    ce: "cooking_events fp h stove = Inr (n, h1)" and
    loop: "cooking_duration_loop h1 (map fst n) [] = Inr info" and
    t: "table = zip (map fst n) info"
    by (auto simp: cooking_duration_def split: sum.splits)
  from cooking_events_state [OF ce] show "study_duration h1 = study_duration h"
    and "df_stoves h1 = df_stoves h" by auto
  from cooking_duration_loop_rows [OF loop]
  have "\<forall>d\<in>set info. \<exists>evs. daily_cooking_time h1 evs = Inr d" by simp
  moreover have "snd row \<in> set info" if "row \<in> set table" for row
    using that set_zip_rightD [of "fst row" "snd row" "map fst n" info] unfolding t by simp
  ultimately show "\<forall>row\<in>set table. \<exists>evs. daily_cooking_time h1 evs = Inr (snd row)" by blast
qed



section \<open>The daily fuel use\<close>

text \<open>
  One pass of the loop of \<^verbatim>\<open>daily_fuel_use\<close> writes the entry of the
  current day or of the next one, so the keys are a run of consecutive days,
  which starts at day 1 or at day 2.
\<close>

lemma daily_fuel_use_step:
  assumes run: "daily_fuel_use_loop ts x b init (i # rest) day nw d = Inr out"
  shows "\<exists>day1 nw1 v.
     daily_fuel_use_loop ts x b init rest day1 nw1 (AList.update day1 v d) = Inr out
     \<and> (day1 = day \<or> day1 = day + 1)"
proof -
  have e: "series_at ts i = Inr (ts ! i)"
  proof (rule disjE [OF series_at_cases [of ts i]])
    assume "series_at ts i = Inl KeyError"
    with run have "Inl KeyError = Inr out"
      by (simp only: daily_fuel_use_loop.simps sum.case)
    then show ?thesis by simp
  qed
  have s: "series_at x i = Inr (x ! i)"
  proof (rule disjE [OF series_at_cases [of x i]])
    assume "series_at x i = Inl KeyError"
    with run have "Inl KeyError = Inr out"
      by (simp only: daily_fuel_use_loop.simps e sum.case)
    then show ?thesis by simp
  qed
  note u = run [unfolded daily_fuel_use_loop.simps e s sum.case]
  show ?thesis
  proof (cases "td_days (ts ! i - b) = day - 1")
    case True
    with u have "daily_fuel_use_loop ts x b init rest day (x ! i)
                   (AList.update day (init - x ! i) d) = Inr out" by simp
    then show ?thesis by blast
  next
    case False
    with u have "daily_fuel_use_loop ts x b init rest (day + 1) nw
                   (AList.update (day + 1) (nw - x ! i) d) = Inr out" by simp
    then show ?thesis by blast
  qed
qed

lemma update_keys_upto:
  assumes keys: "map fst d = [a..day]" and a: "a \<le> day"
    and k: "k = day \<or> k = day + 1"
  shows "map fst (AList.update k v d) = [a..k]"
proof (rule disjE [OF k])
  assume "k = day"
  moreover have "day \<in> set (map fst d)" using a by (simp add: keys)
  ultimately show ?thesis by (simp add: update_keys keys)
next
  assume k: "k = day + 1"
  have "day + 1 \<notin> set (map fst d)" by (simp add: keys)
  then show ?thesis using a by (simp add: update_keys keys k upto_snoc)
qed

lemma daily_fuel_use_loop_inv:
  "daily_fuel_use_loop ts x b init is day nw d = Inr out \<Longrightarrow> map fst d = [a..day] \<Longrightarrow> a \<le> day \<Longrightarrow>
     \<exists>day'. day \<le> day' \<and> map fst out = [a..day']"
proof (induction "is" arbitrary: day nw d)
  case Nil
  then show ?case by auto
next
  case (Cons i rest)
  from daily_fuel_use_step [OF Cons.prems(1)] obtain day1 nw1 v where
    run: "daily_fuel_use_loop ts x b init rest day1 nw1 (AList.update day1 v d) = Inr out" and
    k: "day1 = day \<or> day1 = day + 1"
    by blast
  have keys: "map fst (AList.update day1 v d) = [a..day1]"
    using Cons.prems(2,3) k by (rule update_keys_upto)
  from k Cons.prems(3) have le: "a \<le> day1" "day \<le> day1" by auto
  from Cons.IH [OF run keys le(1)] obtain day' where
    "day1 \<le> day'" and out: "map fst out = [a..day']" by blast
  with le(2) have "day \<le> day'" by simp
  with out show ?case by blast
qed

lemma daily_fuel_use_props:
  assumes "daily_fuel_use h fuel changes = Inr daily"
  shows "{2..td_days (study_duration h)} \<subseteq> fst ` set daily \<and> distinct (map fst daily)"
proof -
  define ts where "ts = timestamp (df_stoves h)"
  define D where "D = td_days (study_duration h)"
  from assms obtain b x init w0 rest out where
    ch: "changes = w0 # rest" and
    loop: "daily_fuel_use_loop ts x b init changes 1 0 [] = Inr out" and
    daily: "daily = (if int (length out) \<noteq> D
                     then fill_days (map (\<lambda>i. i + 2) [0..D - 2]) out else out)"
    by (auto simp: daily_fuel_use_def Let_def ts_def D_def
          simp del: daily_fuel_use_loop.simps
          split: sum.splits option.splits list.splits)
  from daily_fuel_use_step [OF loop [unfolded ch]] obtain day1 nw1 v where
    run: "daily_fuel_use_loop ts x b init rest day1 nw1 (AList.update day1 v []) = Inr out" and
    k: "day1 = 1 \<or> day1 = 1 + 1"
    by blast
  have keys1: "map fst (AList.update day1 v []) = [day1..day1]" by simp
  from daily_fuel_use_loop_inv [OF run keys1] obtain day' where
    le: "day1 \<le> day'" and keys: "map fst out = [day1..day']" by auto
  have dom: "fst ` set out = {day1..day'}" using keys by (rule keys_upto)
  have "length (map fst out) = length [day1..day']" by (simp only: keys)
  then have len: "int (length out) = day' - day1 + 1" using le by simp
  have dist: "distinct (map fst out)" by (simp add: keys)
  have days: "set (map (\<lambda>i. i + 2) [0..D - 2]) = {2..D}"
    using image_add_atLeastAtMost' [of 2 0 "D - 2"] by simp
  note fd = fill_days_props [of "map (\<lambda>i. i + 2) [0..D - 2]" out]
  show ?thesis
  proof (cases "int (length out) \<noteq> D")
    case True
    then have d: "daily = fill_days (map (\<lambda>i. i + 2) [0..D - 2]) out" by (simp add: daily)
    have a: "{2..D} \<subseteq> fst ` set daily" using fd days unfolding d by blast
    have c: "distinct (map fst daily)" using fd dist unfolding d by blast
    from a c show ?thesis unfolding D_def by simp
  next
    case False
    then have d: "daily = out" by (simp add: daily)
    from False len have "day' = D + day1 - 1" by simp
    with k have "{2..D} \<subseteq> {day1..day'}" by auto
    with dom dist show ?thesis unfolding d D_def by simp
  qed
qed

lemma fuel_usage_loop_rows:
  "fuel_usage_loop fp h fs acc fwc = Inr (info, fwc') \<Longrightarrow>
     \<forall>d\<in>set info. d \<in> set acc \<or> (\<exists>f changes. daily_fuel_use h f changes = Inr d)"
proof (induction fs arbitrary: acc fwc)
  case Nil
  then show ?case by simp
next
  case (Cons f fs)
  from Cons.prems obtain changes daily fwc1 where
    dc: "daily_fuel_use h f changes = Inr daily" and
    run: "fuel_usage_loop fp h fs (acc @ [daily]) fwc1 = Inr (info, fwc')"
    by (auto split: sum.splits option.splits)
  from Cons.IH [OF run] dc show ?case by auto
qed

lemma fuel_usage_rows:
  assumes "fuel_usage fp h fuel = Inr (table, h1)"
  shows "\<forall>row\<in>set table. \<exists>f changes. daily_fuel_use h f changes = Inr (snd row)"
proof -
  from assms have "fuel_usage_body fp h fuel = Inr (table, h1)"
    by (cases fuel) (auto split: if_splits)
  then obtain fuel_type info fwc where
    loop: "fuel_usage_loop fp h fuel_type [] [] = Inr (info, fwc)" and
    t: "table = zip fuel_type info"
    by (auto simp: fuel_usage_body_def split: sum.splits)
  from fuel_usage_loop_rows [OF loop]
  have "\<forall>d\<in>set info. \<exists>f changes. daily_fuel_use h f changes = Inr d" by simp
  moreover have "snd row \<in> set info" if "row \<in> set table" for row
    using that set_zip_rightD [of "fst row" "snd row" fuel_type info] unfolding t by simp
  ultimately show ?thesis by blast
qed

text \<open>
  C2, as the code has it: in every row of the table \<^verbatim>\<open>cooking_duration\<close>
  returns, each day from 1 to the study's whole days has exactly one entry and
  every value is at least 0; in every row of the table \<^verbatim>\<open>fuel_usage\<close>
  returns, each day from 2 to the study's whole days has exactly one entry.
  Days beyond the study's whole days can have entries too, and a fuel value is a
  difference of two weights of either sign.
\<close>

theorem daily_series_cover_study:
  "(cooking_duration fp h stove = Inr (table, hc) \<longrightarrow>
      (\<forall>row\<in>set table.
         {1..td_days (study_duration h)} \<subseteq> fst ` set (snd row)
         \<and> distinct (map fst (snd row))
         \<and> (\<forall>v\<in>snd ` set (snd row). 0 \<le> v)))
   \<and> (fuel_usage fp h fuel = Inr (ftable, hf) \<longrightarrow>
      (\<forall>row\<in>set ftable.
         {2..td_days (study_duration h)} \<subseteq> fst ` set (snd row)
         \<and> distinct (map fst (snd row))))"
proof -
  have c: "{1..td_days (study_duration h)} \<subseteq> fst ` set (snd row)
         \<and> distinct (map fst (snd row))
         \<and> (\<forall>v\<in>snd ` set (snd row). 0 \<le> v)"
    if run: "cooking_duration fp h stove = Inr (table, hc)" and row: "row \<in> set table" for row
  proof -
    from cooking_duration_rows [OF run] row obtain evs where
      d: "daily_cooking_time hc evs = Inr (snd row)" and sd: "study_duration hc = study_duration h"
      by blast
    from daily_cooking_time_props [OF d, unfolded sd] show ?thesis by blast
  qed
  have f: "{2..td_days (study_duration h)} \<subseteq> fst ` set (snd row)
         \<and> distinct (map fst (snd row))"
    if run: "fuel_usage fp h fuel = Inr (ftable, hf)" and row: "row \<in> set ftable" for row
  proof -
    from fuel_usage_rows [OF run] row obtain f changes where
      d: "daily_fuel_use h f changes = Inr (snd row)" by blast
    from daily_fuel_use_props [OF d] show ?thesis by blast
  qed
  from c f show ?thesis by blast
qed

text \<open>
  In \<open>study3\<close> (three whole days, all events on the first) the cooking row is
  180 minutes on day 1 and the back-filled 0 on days 2 and 3; the fuel row has
  its entries on days 1 and 2 and the back-filled 0 on day 3.
\<close>

theorem daily_series_cover_study_witness:
  "cooking_duration find_peaks study3 (PyStr ''All'')
     = Inr ([(''stove'', [(1, 180), (2, 0), (3, 0)])], study3\<lparr>cook_events := [(''stove'', [2])]\<rparr>)
   \<and> fuel_usage find_peaks study3 (PyStr ''All'')
     = Inr ([(''wood'', [(1, - 4), (2, 9), (3, 0)])], study3\<lparr>weight_changes := [(''wood'', [1, 3, 5])]\<rparr>)
   \<and> td_days (study_duration study3) = 3
   \<and> {1..3} \<subseteq> fst ` set [(1::int, 180::real), (2, 0), (3, 0)]
   \<and> {2..3} \<subseteq> fst ` set [(1::int, - 4::real), (2, 9), (3, 0)]"
proof -
  have c: "cooking_duration find_peaks study3 (PyStr ''All'')
     = Inr ([(''stove'', [(1, 180), (2, 0), (3, 0)])], study3\<lparr>cook_events := [(''stove'', [2])]\<rparr>)"
    by code_simp
  have f: "fuel_usage find_peaks study3 (PyStr ''All'')
     = Inr ([(''wood'', [(1, - 4), (2, 9), (3, 0)])], study3\<lparr>weight_changes := [(''wood'', [1, 3, 5])]\<rparr>)"
    by code_simp
  have d: "td_days (study_duration study3) = 3" by code_simp
  from daily_series_cover_study [where fp = find_peaks and h = study3 and stove = "PyStr ''All''"
      and fuel = "PyStr ''All''"
      and table = "[(''stove'', [(1, 180), (2, 0), (3, 0)])]"
      and hc = "study3\<lparr>cook_events := [(''stove'', [2])]\<rparr>"
      and ftable = "[(''wood'', [(1, - 4), (2, 9), (3, 0)])]"
      and hf = "study3\<lparr>weight_changes := [(''wood'', [1, 3, 5])]\<rparr>"] c f d
  show ?thesis by simp
qed

text \<open>
  C2 as stated fails: \<open>example\<close> lasts one whole day (47 hours).  Its fuel row
  has the single key 2, with the value -7, and no key 1; its cooking row has the
  keys 1 and 2.  Neither key set is \<open>{1}\<close>.
\<close>

theorem daily_series_not_exact:
  "map_sum id fst (fuel_usage find_peaks example (PyStr ''All'')) = Inr [(''wood'', [(2, - 7)])]
   \<and> map_sum id fst (cooking_duration find_peaks example (PyStr ''All''))
       = Inr [(''stove'', [(1, 0), (2, 660)])]
   \<and> td_days (study_duration example) = 1
   \<and> fst ` set [(2::int, - 7::real)] \<noteq> {1..1}
   \<and> fst ` set [(1::int, 0::real), (2, 660)] \<noteq> {1..1}
   \<and> (- 7::real) < 0"
proof -
  have a: "map_sum id fst (fuel_usage find_peaks example (PyStr ''All'')) = Inr [(''wood'', [(2, - 7)])]"
    by code_simp
  have b: "map_sum id fst (cooking_duration find_peaks example (PyStr ''All''))
       = Inr [(''stove'', [(1, 0), (2, 660)])]"
    by code_simp
  have c: "td_days (study_duration example) = 1" by code_simp
  from a b c show ?thesis by auto
qed

section \<open>The constructor's checks\<close>

text \<open>
  C7, as the code has it: \<^verbatim>\<open>temp_threshold\<close> and
  \<^verbatim>\<open>time_between_events\<close> are validated, \<^verbatim>\<open>weight_threshold\<close> is not.
  Construction raises whenever one of the first two is not a non-negative
  \<^verbatim>\<open>int\<close> (a value passes the check exactly when it is an \<^verbatim>\<open>int\<close> and
  not negative); whether construction raises does not depend on
  \<^verbatim>\<open>weight_threshold\<close>, which is stored as given; and with a dataframe that
  has a sample, and lists of its column names, every pair of non-negative
  \<^verbatim>\<open>int\<close>s is accepted.
\<close>

theorem Household_init_validation:
  "(\<not> nonneg_int temp \<or> \<not> nonneg_int tbe \<longrightarrow> isl (Household_init d st fu temp tbe wt))
   \<and> (nonneg_int v \<longleftrightarrow> (\<exists>n. v = PyInt n \<and> 0 \<le> n))
   \<and> isl (Household_init d st fu temp tbe wt) = isl (Household_init d st fu temp tbe wt')
   \<and> (Household_init d st fu temp tbe wt = Inr h \<longrightarrow>
        weight_threshold h = wt \<and> temp = PyInt (temp_threshold h) \<and> 0 \<le> temp_threshold h
        \<and> tbe = PyInt (time_between_events h) \<and> 0 \<le> time_between_events h)
   \<and> (0 \<le> n \<and> 0 \<le> m \<and> list_all (in_contents (contents df)) names
        \<and> list_all (in_contents (contents df)) names' \<and> timestamp df \<noteq> [] \<longrightarrow>
        \<not> isl (Household_init (DataFrame df) (PyList names) (PyList names') (PyInt n) (PyInt m) wt))"
proof -
  have a: "isl (Household_init d st fu temp tbe wt)" if "\<not> nonneg_int temp \<or> \<not> nonneg_int tbe"
    using that by (induction d st fu temp tbe wt rule: Household_init.induct) auto
  have b: "nonneg_int v \<longleftrightarrow> (\<exists>n. v = PyInt n \<and> 0 \<le> n)"
    by (cases v) auto
  have c: "isl (Household_init d st fu temp tbe wt) = isl (Household_init d st fu temp tbe wt')"
    by (induction d st fu temp tbe wt rule: Household_init.induct) auto
  have e: "weight_threshold h = wt \<and> temp = PyInt (temp_threshold h) \<and> 0 \<le> temp_threshold h
        \<and> tbe = PyInt (time_between_events h) \<and> 0 \<le> time_between_events h"
    if "Household_init d st fu temp tbe wt = Inr h"
    using that
  proof (induction d st fu temp tbe wt rule: Household_init.induct)
    case (2 df st fu temp tbe wt)
    then have "nonneg_int temp" and "nonneg_int tbe" and
      h: "h = \<lparr>df_stoves = df, stoves = map the_str st, fuels = map the_str fu,
                temp_threshold = the_int temp, time_between_events = the_int tbe,
                study_duration = last (timestamp df) - hd (timestamp df),
                weight_threshold = wt, cook_events = [], weight_changes = []\<rparr>"
      by (auto split: if_splits)
    then show ?case by (cases temp; cases tbe) (simp_all add: h)
  qed simp_all
  have f: "\<not> isl (Household_init (DataFrame df) (PyList names) (PyList names') (PyInt n) (PyInt m) wt)"
    if "0 \<le> n \<and> 0 \<le> m \<and> list_all (in_contents (contents df)) names
        \<and> list_all (in_contents (contents df)) names' \<and> timestamp df \<noteq> []"
    using that by simp
  from a b c e f show ?thesis by blast
qed

theorem Household_init_validation_witness:
  "\<not> nonneg_int (PyFloat 15.5) \<and> \<not> nonneg_int (PyInt (- 1)) \<and> \<not> nonneg_int (PyBool True)
   \<and> isl (Household_init (DataFrame (df_stoves example)) (PyList [PyStr ''stove''])
            (PyList [PyStr ''wood'']) (PyInt (- 1)) (PyInt 30) (PyFloat 0.2))
   \<and> \<not> isl (Household_init (DataFrame (df_stoves example)) (PyList [PyStr ''stove''])
            (PyList [PyStr ''wood'']) (PyInt 0) (PyInt 30) (PyFloat (- 1)))"
proof -
  have n: "\<not> nonneg_int (PyFloat 15.5)" "\<not> nonneg_int (PyInt (- 1))" "\<not> nonneg_int (PyBool True)"
    by simp_all
  have ok: "(0::int) \<le> 0 \<and> (0::int) \<le> 30
      \<and> list_all (in_contents (contents (df_stoves example))) [PyStr ''stove'']
      \<and> list_all (in_contents (contents (df_stoves example))) [PyStr ''wood'']
      \<and> timestamp (df_stoves example) \<noteq> []"
    by code_simp
  from Household_init_validation [where temp = "PyInt (- 1)" and tbe = "PyInt 30"
      and d = "DataFrame (df_stoves example)" and st = "PyList [PyStr ''stove'']"
      and fu = "PyList [PyStr ''wood'']" and wt = "PyFloat 0.2"
      and df = "df_stoves example" and names = "[PyStr ''stove'']" and names' = "[PyStr ''wood'']"
      and n = 0 and m = 30] n ok
  have "isl (Household_init (DataFrame (df_stoves example)) (PyList [PyStr ''stove''])
            (PyList [PyStr ''wood'']) (PyInt (- 1)) (PyInt 30) (PyFloat 0.2))" by blast
  moreover from Household_init_validation [where wt = "PyFloat (- 1)"
      and df = "df_stoves example" and names = "[PyStr ''stove'']" and names' = "[PyStr ''wood'']"
      and n = 0 and m = 30] ok
  have "\<not> isl (Household_init (DataFrame (df_stoves example)) (PyList [PyStr ''stove''])
            (PyList [PyStr ''wood'']) (PyInt 0) (PyInt 30) (PyFloat (- 1)))" by blast
  ultimately show ?thesis using n by simp
qed

text \<open>
  C7 as stated fails: a negative and a non-numeric \<^verbatim>\<open>weight_threshold\<close> are
  accepted, and the non-negative number 15.5 is refused as
  \<^verbatim>\<open>temp_threshold\<close>.
\<close>

theorem Household_init_weight_unchecked:
  "Household_init (DataFrame (df_stoves example)) (PyList [PyStr ''stove''])
       (PyList [PyStr ''wood'']) (PyInt 15) (PyInt 30) (PyFloat (- 1))
     = Inr (example\<lparr>weight_threshold := PyFloat (- 1)\<rparr>)
   \<and> Household_init (DataFrame (df_stoves example)) (PyList [PyStr ''stove''])
       (PyList [PyStr ''wood'']) (PyInt 15) (PyInt 30) (PyStr ''heavy'')
     = Inr (example\<lparr>weight_threshold := PyStr ''heavy''\<rparr>)
   \<and> Household_init (DataFrame (df_stoves example)) (PyList [PyStr ''stove''])
       (PyList [PyStr ''wood'']) (PyFloat 15.5) (PyInt 30) (PyFloat 0.2)
     = Inl (ValueError ''The temperature threshold must be a positive integer!'')"
  by code_simp

end
